theory Spec2Isabelle
  imports Main "HOL-Library.AList"
begin

section \<open>Python strings\<close>

text \<open>
  A Python \<^verbatim>\<open>str\<close> is a sequence of Unicode code points, so it is modelled as a list of
  natural numbers. \<open>str\<close> embeds an ASCII literal of the source.
\<close>

type_synonym pystr = "nat list"

definition str :: "string \<Rightarrow> pystr" where
  "str s = map of_char s"

text \<open>
  \<^verbatim>\<open>str.lower()\<close> and \<^verbatim>\<open>str.upper()\<close> work code point by code point. The two functions
  below agree with CPython 3 on ASCII and on every code point whose \<^verbatim>\<open>lower()\<close>,
  \<^verbatim>\<open>upper()\<close> or \<^verbatim>\<open>lower().upper()\<close> contains an ASCII character (the tables list
  all of them: for instance the long s, U+017F, has \<^verbatim>\<open>upper()\<close> equal to \<^verbatim>\<open>'S'\<close> and
  the dotless i, U+0131, has \<^verbatim>\<open>upper()\<close> equal to \<^verbatim>\<open>'I'\<close>, while \<^verbatim>\<open>lower()\<close>
  leaves both unchanged). Every other code point is kept as it is; Python maps it to non-ASCII
  code points only, so whether a result equals an ASCII label is the same in the model
  and in Python.
\<close>

definition lower_special :: "(nat \<times> pystr) list" where
  "lower_special = [(0x130, [0x69, 0x307]), (0x212A, [0x6B]), (0x1E9E, [0xDF])]"

definition upper_special :: "(nat \<times> pystr) list" where
  "upper_special =
    [(0xDF, [0x53, 0x53]), (0x131, [0x49]), (0x149, [0x2BC, 0x4E]), (0x17F, [0x53]),
     (0x1F0, [0x4A, 0x30C]), (0x1E96, [0x48, 0x331]), (0x1E97, [0x54, 0x308]),
     (0x1E98, [0x57, 0x30A]), (0x1E99, [0x59, 0x30A]), (0x1E9A, [0x41, 0x2BE]),
     (0xFB00, [0x46, 0x46]), (0xFB01, [0x46, 0x49]), (0xFB02, [0x46, 0x4C]),
     (0xFB03, [0x46, 0x46, 0x49]), (0xFB04, [0x46, 0x46, 0x4C]),
     (0xFB05, [0x53, 0x54]), (0xFB06, [0x53, 0x54])]"

definition lower_cp :: "nat \<Rightarrow> pystr" where
  "lower_cp c =
    (if 65 \<le> c \<and> c \<le> 90 then [c + 32]
     else case map_of lower_special c of Some l \<Rightarrow> l | None \<Rightarrow> [c])"

definition upper_cp :: "nat \<Rightarrow> pystr" where
  "upper_cp c =
    (if 97 \<le> c \<and> c \<le> 122 then [c - 32]
     else case map_of upper_special c of Some u \<Rightarrow> u | None \<Rightarrow> [c])"

definition lower :: "pystr \<Rightarrow> pystr" where
  "lower s = concat (map lower_cp s)"

definition upper :: "pystr \<Rightarrow> pystr" where
  "upper s = concat (map upper_cp s)"

text \<open>
  \<^verbatim>\<open>s.replace(old, new)\<close>, for the one-character arguments the source passes
  (\<^verbatim>\<open>" "\<close>, \<^verbatim>\<open>"-"\<close> and \<^verbatim>\<open>"_"\<close>, given by their code points).
\<close>

definition replace :: "pystr \<Rightarrow> nat \<Rightarrow> nat \<Rightarrow> pystr" where
  "replace s old new = map (\<lambda>c. if c = old then new else c) s"

text \<open>\<^verbatim>\<open>sep.join(parts)\<close>.\<close>

fun join :: "pystr \<Rightarrow> pystr list \<Rightarrow> pystr" where
  "join sep [] = []"
| "join sep [x] = x"
| "join sep (x # y # ys) = x @ sep @ join sep (y # ys)"

section \<open>Layer 1: the enumerations of cocktail\_ologs.py\<close>

datatype SpiritBase = RUM | WHISKEY | VODKA | GIN | TEQUILA | COGNAC | MEZCAL

datatype FlavorType =
  BITTER | SWEET | SOUR | SPIRIT_FORWARD | HERBAL | FRUITY | CREAMY | SPICED | SMOKY

datatype ComplexityLevel = SIMPLE | MODERATE | COMPLEX

datatype ColorCategory = AMBER | RUBY | GOLDEN | CLEAR | DARK | TROPICAL | GREEN | PURPLE

datatype LightingStyle =
  WARM_SIDE_LIT | TIKI_TORCH | GOLDEN_HOUR | MOODY_AMBER | CRISP_BACKLIT | NEON_ACCENT
  | DIFFUSED_SOFT | DRAMATIC_SHADOW

datatype MoodDescriptor =
  SOPHISTICATED | TROPICAL | NOSTALGIC | BOLD | ELEGANT | PLAYFUL | DARK | AROMATIC

datatype CompositionApproach = BALANCED | LAYERED | MINIMALIST | DRAMATIC | GARNISH_FOCUSED

datatype TextureQuality =
  SMOOTH | CRYSTALLINE | CREAMY | OILY | EFFERVESCENT | TRANSLUCENT | OPAQUE | FOAMY

datatype TemperatureVibe = WARM | HOT | COOL | ICY | AMBIENT

text \<open>
  Each enumeration mixes in \<^verbatim>\<open>str\<close>: a member has a name (the identifier) and a value
  (the string). \<open>E_value\<close> is \<^verbatim>\<open>member.value\<close>, \<open>E_members\<close> is the definition order.
\<close>

fun SpiritBase_value :: "SpiritBase \<Rightarrow> pystr" where
  "SpiritBase_value RUM = str ''rum''"
| "SpiritBase_value WHISKEY = str ''whiskey''"
| "SpiritBase_value VODKA = str ''vodka''"
| "SpiritBase_value GIN = str ''gin''"
| "SpiritBase_value TEQUILA = str ''tequila''"
| "SpiritBase_value COGNAC = str ''cognac''"
| "SpiritBase_value MEZCAL = str ''mezcal''"

definition SpiritBase_members :: "SpiritBase list" where
  "SpiritBase_members = [RUM, WHISKEY, VODKA, GIN, TEQUILA, COGNAC, MEZCAL]"

fun FlavorType_value :: "FlavorType \<Rightarrow> pystr" where
  "FlavorType_value BITTER = str ''bitter''"
| "FlavorType_value SWEET = str ''sweet''"
| "FlavorType_value SOUR = str ''sour''"
| "FlavorType_value SPIRIT_FORWARD = str ''spirit_forward''"
| "FlavorType_value HERBAL = str ''herbal''"
| "FlavorType_value FRUITY = str ''fruity''"
| "FlavorType_value FlavorType.CREAMY = str ''creamy''"
| "FlavorType_value SPICED = str ''spiced''"
| "FlavorType_value SMOKY = str ''smoky''"

fun FlavorType_name :: "FlavorType \<Rightarrow> pystr" where
  "FlavorType_name BITTER = str ''BITTER''"
| "FlavorType_name SWEET = str ''SWEET''"
| "FlavorType_name SOUR = str ''SOUR''"
| "FlavorType_name SPIRIT_FORWARD = str ''SPIRIT_FORWARD''"
| "FlavorType_name HERBAL = str ''HERBAL''"
| "FlavorType_name FRUITY = str ''FRUITY''"
| "FlavorType_name FlavorType.CREAMY = str ''CREAMY''"
| "FlavorType_name SPICED = str ''SPICED''"
| "FlavorType_name SMOKY = str ''SMOKY''"

definition FlavorType_members :: "FlavorType list" where
  "FlavorType_members =
    [BITTER, SWEET, SOUR, SPIRIT_FORWARD, HERBAL, FRUITY, FlavorType.CREAMY, SPICED, SMOKY]"

fun ComplexityLevel_value :: "ComplexityLevel \<Rightarrow> pystr" where
  "ComplexityLevel_value SIMPLE = str ''simple''"
| "ComplexityLevel_value MODERATE = str ''moderate''"
| "ComplexityLevel_value COMPLEX = str ''complex''"

definition ComplexityLevel_members :: "ComplexityLevel list" where
  "ComplexityLevel_members = [SIMPLE, MODERATE, COMPLEX]"

fun ColorCategory_value :: "ColorCategory \<Rightarrow> pystr" where
  "ColorCategory_value AMBER = str ''amber''"
| "ColorCategory_value RUBY = str ''ruby''"
| "ColorCategory_value GOLDEN = str ''golden''"
| "ColorCategory_value CLEAR = str ''clear''"
| "ColorCategory_value ColorCategory.DARK = str ''dark''"
| "ColorCategory_value ColorCategory.TROPICAL = str ''tropical''"
| "ColorCategory_value GREEN = str ''green''"
| "ColorCategory_value PURPLE = str ''purple''"

fun LightingStyle_value :: "LightingStyle \<Rightarrow> pystr" where
  "LightingStyle_value WARM_SIDE_LIT = str ''warm_side_lit''"
| "LightingStyle_value TIKI_TORCH = str ''tiki_torch''"
| "LightingStyle_value GOLDEN_HOUR = str ''golden_hour''"
| "LightingStyle_value MOODY_AMBER = str ''moody_amber''"
| "LightingStyle_value CRISP_BACKLIT = str ''crisp_backlit''"
| "LightingStyle_value NEON_ACCENT = str ''neon_accent''"
| "LightingStyle_value DIFFUSED_SOFT = str ''diffused_soft''"
| "LightingStyle_value DRAMATIC_SHADOW = str ''dramatic_shadow''"

fun MoodDescriptor_value :: "MoodDescriptor \<Rightarrow> pystr" where
  "MoodDescriptor_value SOPHISTICATED = str ''sophisticated''"
| "MoodDescriptor_value MoodDescriptor.TROPICAL = str ''tropical''"
| "MoodDescriptor_value NOSTALGIC = str ''nostalgic''"
| "MoodDescriptor_value BOLD = str ''bold''"
| "MoodDescriptor_value ELEGANT = str ''elegant''"
| "MoodDescriptor_value PLAYFUL = str ''playful''"
| "MoodDescriptor_value MoodDescriptor.DARK = str ''dark''"
| "MoodDescriptor_value AROMATIC = str ''aromatic''"

fun CompositionApproach_value :: "CompositionApproach \<Rightarrow> pystr" where
  "CompositionApproach_value BALANCED = str ''balanced''"
| "CompositionApproach_value LAYERED = str ''layered''"
| "CompositionApproach_value MINIMALIST = str ''minimalist''"
| "CompositionApproach_value DRAMATIC = str ''dramatic''"
| "CompositionApproach_value GARNISH_FOCUSED = str ''garnish_focused''"

fun TextureQuality_value :: "TextureQuality \<Rightarrow> pystr" where
  "TextureQuality_value SMOOTH = str ''smooth''"
| "TextureQuality_value CRYSTALLINE = str ''crystalline''"
| "TextureQuality_value TextureQuality.CREAMY = str ''creamy''"
| "TextureQuality_value OILY = str ''oily''"
| "TextureQuality_value EFFERVESCENT = str ''effervescent''"
| "TextureQuality_value TRANSLUCENT = str ''translucent''"
| "TextureQuality_value OPAQUE = str ''opaque''"
| "TextureQuality_value FOAMY = str ''foamy''"

fun TemperatureVibe_value :: "TemperatureVibe \<Rightarrow> pystr" where
  "TemperatureVibe_value WARM = str ''warm''"
| "TemperatureVibe_value HOT = str ''hot''"
| "TemperatureVibe_value COOL = str ''cool''"
| "TemperatureVibe_value ICY = str ''icy''"
| "TemperatureVibe_value AMBIENT = str ''ambient''"

section \<open>Layer 2: the data classes\<close>

record FlavorProfile =
  primary_flavor :: FlavorType
  secondary_flavors :: "FlavorType list"
  complexity :: ComplexityLevel
  warmth_level :: int
  bitterness :: int
  sweetness :: int
  richness :: int

record VisualParameters =
  primary_color_category :: ColorCategory
  color_palette :: "pystr list"
  lighting_style :: LightingStyle
  primary_mood :: MoodDescriptor
  secondary_moods :: "MoodDescriptor list"
  composition_strategy :: CompositionApproach
  texture_quality :: TextureQuality
  temperature_vibe :: TemperatureVibe

record CocktailProfile =
  name :: pystr
  spirit_base :: SpiritBase
  primary_flavor :: FlavorType
  flavor_profile :: FlavorProfile
  visual_parameters :: VisualParameters
  description :: pystr

section \<open>Layer 3: the morphisms of CocktailOlogMorphisms\<close>

text \<open>
  The table morphisms read a dict with \<^verbatim>\<open>.get(key, default)\<close>. Each table has an
  entry for every member of its enumeration, so on the declared argument type the
  default is never taken and the morphism is a case distinction.
\<close>

fun spirit_base_to_warmth :: "SpiritBase \<Rightarrow> int" where
  "spirit_base_to_warmth RUM = 9"
| "spirit_base_to_warmth WHISKEY = 8"
| "spirit_base_to_warmth COGNAC = 9"
| "spirit_base_to_warmth MEZCAL = 8"
| "spirit_base_to_warmth TEQUILA = 7"
| "spirit_base_to_warmth GIN = 5"
| "spirit_base_to_warmth VODKA = 3"

fun spirit_base_to_color_category :: "SpiritBase \<Rightarrow> ColorCategory" where
  "spirit_base_to_color_category RUM = GOLDEN"
| "spirit_base_to_color_category WHISKEY = AMBER"
| "spirit_base_to_color_category COGNAC = AMBER"
| "spirit_base_to_color_category MEZCAL = GOLDEN"
| "spirit_base_to_color_category TEQUILA = CLEAR"
| "spirit_base_to_color_category GIN = CLEAR"
| "spirit_base_to_color_category VODKA = CLEAR"

fun flavor_to_mood :: "FlavorType \<Rightarrow> MoodDescriptor" where
  "flavor_to_mood BITTER = SOPHISTICATED"
| "flavor_to_mood SWEET = PLAYFUL"
| "flavor_to_mood SPIRIT_FORWARD = BOLD"
| "flavor_to_mood HERBAL = ELEGANT"
| "flavor_to_mood FRUITY = MoodDescriptor.TROPICAL"
| "flavor_to_mood FlavorType.CREAMY = NOSTALGIC"
| "flavor_to_mood SMOKY = MoodDescriptor.DARK"
| "flavor_to_mood SOUR = BOLD"
| "flavor_to_mood SPICED = AROMATIC"

fun complexity_to_composition :: "ComplexityLevel \<Rightarrow> CompositionApproach" where
  "complexity_to_composition SIMPLE = MINIMALIST"
| "complexity_to_composition MODERATE = BALANCED"
| "complexity_to_composition COMPLEX = LAYERED"

definition bitterness_to_lighting :: "int \<Rightarrow> LightingStyle" where
  "bitterness_to_lighting b =
    (if b \<ge> 7 then DRAMATIC_SHADOW
     else if b \<ge> 5 then WARM_SIDE_LIT
     else DIFFUSED_SOFT)"

definition warmth_and_complexity_to_lighting :: "int \<Rightarrow> ComplexityLevel \<Rightarrow> LightingStyle" where
  "warmth_and_complexity_to_lighting warmth cx =
    (if warmth \<ge> 8 \<and> cx = COMPLEX then GOLDEN_HOUR
     else if warmth \<ge> 8 then MOODY_AMBER
     else if warmth \<le> 4 then CRISP_BACKLIT
     else WARM_SIDE_LIT)"

text \<open>The arguments are in the source's order: has\_cream, has\_ice, is\_effervescent.\<close>

definition texture_from_components :: "bool \<Rightarrow> bool \<Rightarrow> bool \<Rightarrow> TextureQuality" where
  "texture_from_components has_cream has_ice is_effervescent =
    (if has_cream then TextureQuality.CREAMY
     else if is_effervescent then EFFERVESCENT
     else if has_ice then CRYSTALLINE
     else TRANSLUCENT)"

text \<open>
  The master morphism. The list \<open>secondary_moods\<close> starts empty and receives the three
  conditional appends in the source's order.
\<close>

definition build_visual_parameters ::
  "SpiritBase \<Rightarrow> FlavorType \<Rightarrow> ComplexityLevel \<Rightarrow> int \<Rightarrow> int \<Rightarrow> int \<Rightarrow> pystr list
    \<Rightarrow> bool \<Rightarrow> bool \<Rightarrow> bool \<Rightarrow> VisualParameters" where
  "build_visual_parameters spirit flavor cx bitter sweet rich palette
      has_cream has_ice is_effervescent =
    (let primary_color = spirit_base_to_color_category spirit;
         mood = flavor_to_mood flavor;
         warmth = spirit_base_to_warmth spirit;
         composition = complexity_to_composition cx;
         lighting = warmth_and_complexity_to_lighting warmth cx;
         texture = texture_from_components has_cream has_ice is_effervescent;
         temperature = (if warmth \<ge> 8 then WARM else if warmth \<le> 3 then ICY else AMBIENT);
         moods0 = [];
         moods1 = (if rich \<ge> 7 then moods0 @ [ELEGANT] else moods0);
         moods2 = (if cx = COMPLEX then moods1 @ [AROMATIC] else moods1);
         moods3 = (if sweet \<ge> 6 then moods2 @ [PLAYFUL] else moods2)
     in \<lparr> primary_color_category = primary_color,
          color_palette = palette,
          lighting_style = lighting,
          primary_mood = mood,
          secondary_moods = moods3,
          composition_strategy = composition,
          texture_quality = texture,
          temperature_vibe = temperature \<rparr>)"

section \<open>Record-to-profile conversion\<close>

text \<open>
  The exceptions the conversion can raise: \<^verbatim>\<open>KeyError\<close> carries the key that was not
  found, \<^verbatim>\<open>ValueError\<close> the string that is no value of the enumeration.
\<close>

datatype exn = KeyError pystr | ValueError pystr

text \<open>\<^verbatim>\<open>SpiritBase(s)\<close> and \<^verbatim>\<open>ComplexityLevel(s)\<close> look a member up by value,
  \<^verbatim>\<open>FlavorType[s]\<close> by name.\<close>

definition SpiritBase_of_value :: "pystr \<Rightarrow> exn + SpiritBase" where
  "SpiritBase_of_value s =
    (case find (\<lambda>m. SpiritBase_value m = s) SpiritBase_members of
       Some m \<Rightarrow> Inr m | None \<Rightarrow> Inl (ValueError s))"

definition FlavorType_getitem :: "pystr \<Rightarrow> exn + FlavorType" where
  "FlavorType_getitem s =
    (case find (\<lambda>m. FlavorType_name m = s) FlavorType_members of
       Some m \<Rightarrow> Inr m | None \<Rightarrow> Inl (KeyError s))"

definition ComplexityLevel_of_value :: "pystr \<Rightarrow> exn + ComplexityLevel" where
  "ComplexityLevel_of_value s =
    (case find (\<lambda>m. ComplexityLevel_value m = s) ComplexityLevel_members of
       Some m \<Rightarrow> Inr m | None \<Rightarrow> Inl (ValueError s))"

text \<open>
  A raw record is a dict with the twelve keys below, each present (\<open>Some\<close>) or absent,
  and with values of the types the data classes declare.
\<close>

record cocktail_data =
  raw_name :: "pystr option"
  raw_spirit_base :: "pystr option"
  raw_primary_flavor :: "pystr option"
  raw_complexity :: "pystr option"
  raw_bitterness :: "int option"
  raw_sweetness :: "int option"
  raw_richness :: "int option"
  raw_color_palette :: "pystr list option"
  raw_has_cream :: "bool option"
  raw_has_ice :: "bool option"
  raw_is_effervescent :: "bool option"
  raw_description :: "pystr option"

text \<open>\<^verbatim>\<open>d.get(key, default)\<close> on an entry of the record.\<close>

definition get_default :: "'a option \<Rightarrow> 'a \<Rightarrow> 'a" where
  "get_default v dflt = (case v of None \<Rightarrow> dflt | Some x \<Rightarrow> x)"

text \<open>
  The statements of the source run in order, so the first failing one decides the
  exception: the spirit, then the flavor, then the complexity, and the name last
  (\<^verbatim>\<open>cocktail_data["name"]\<close> is read when the profile is built).
\<close>

definition cocktail_to_profile :: "cocktail_data \<Rightarrow> exn + CocktailProfile" where
  "cocktail_to_profile d =
    (case raw_spirit_base d of
       None \<Rightarrow> Inl (KeyError (str ''spirit_base''))
     | Some sb \<Rightarrow>
    (case SpiritBase_of_value (lower sb) of
       Inl e \<Rightarrow> Inl e
     | Inr spirit \<Rightarrow>
    (case raw_primary_flavor d of
       None \<Rightarrow> Inl (KeyError (str ''primary_flavor''))
     | Some pf \<Rightarrow>
    (let primary_flavor_str = lower pf in
     case FlavorType_getitem (upper primary_flavor_str) of
       Inl e \<Rightarrow> Inl e
     | Inr flavor \<Rightarrow>
    (let complexity_str = lower (get_default (raw_complexity d) (str ''moderate'')) in
     case ComplexityLevel_of_value complexity_str of
       Inl e \<Rightarrow> Inl e
     | Inr cx \<Rightarrow>
    (let bitter = get_default (raw_bitterness d) 5;
         sweet = get_default (raw_sweetness d) 5;
         rich = get_default (raw_richness d) 5;
         flavor_profile_obj =
           \<lparr> FlavorProfile.primary_flavor = flavor,
             secondary_flavors = [],
             complexity = cx,
             warmth_level = spirit_base_to_warmth spirit,
             bitterness = bitter,
             sweetness = sweet,
             richness = rich \<rparr>;
         visual = build_visual_parameters spirit flavor cx bitter sweet rich
                    (get_default (raw_color_palette d) [])
                    (get_default (raw_has_cream d) False)
                    (get_default (raw_has_ice d) True)
                    (get_default (raw_is_effervescent d) False)
     in case raw_name d of
          None \<Rightarrow> Inl (KeyError (str ''name''))
        | Some n \<Rightarrow>
            Inr \<lparr> name = n,
                  spirit_base = spirit,
                  primary_flavor = flavor,
                  flavor_profile = flavor_profile_obj,
                  visual_parameters = visual,
                  description = get_default (raw_description d) [] \<rparr>))))))"

section \<open>The static table of cocktail\_aesthetics\_mcp.py\<close>

text \<open>A dict literal with all twelve keys, in the order the table writes them.\<close>

definition cocktail ::
  "string \<Rightarrow> string \<Rightarrow> string \<Rightarrow> string \<Rightarrow> int \<Rightarrow> int \<Rightarrow> int \<Rightarrow> string list
    \<Rightarrow> bool \<Rightarrow> bool \<Rightarrow> bool \<Rightarrow> pystr \<Rightarrow> cocktail_data" where
  "cocktail n sb pf cx b s r pal cream ice eff desc =
    \<lparr> raw_name = Some (str n), raw_spirit_base = Some (str sb),
      raw_primary_flavor = Some (str pf), raw_complexity = Some (str cx),
      raw_bitterness = Some b, raw_sweetness = Some s, raw_richness = Some r,
      raw_color_palette = Some (map str pal), raw_has_cream = Some cream,
      raw_has_ice = Some ice, raw_is_effervescent = Some eff,
      raw_description = Some desc \<rparr>"

type_synonym taxonomy = "(pystr \<times> cocktail_data) list"

definition COCKTAIL_TAXONOMY :: taxonomy where
  "COCKTAIL_TAXONOMY =
    [(str ''negroni'',
      cocktail ''Negroni'' ''gin'' ''bitter'' ''simple'' 8 3 6
        [''#8B1A1A'', ''#D2691E'', ''#FFA500''] False True False
        (str ''Classic aperitivo: gin, Campari, vermouth rosso. Bitter, bold, balanced.'')),
     (str ''mai_tai'',
      cocktail ''Mai Tai'' ''rum'' ''fruity'' ''complex'' 2 6 8
        [''#FF6B35'', ''#F7931E'', ''#8B4513'', ''#00A86B''] False True False
        (str ''Tiki classic: aged rum, lime, orgeat, cura'' @ [0xE7]
          @ str ''ao. Sweet, tropical, complex.'')),
     (str ''daiquiri'',
      cocktail ''Daiquiri'' ''rum'' ''sour'' ''simple'' 1 3 3
        [''#FFF8DC'', ''#FFE4B5'', ''#F0E68C''] False True False
        (str ''Elegant simplicity: white rum, fresh lime, simple syrup.'')),
     (str ''old_fashioned'',
      cocktail ''Old Fashioned'' ''whiskey'' ''spirit_forward'' ''simple'' 4 2 7
        [''#8B4513'', ''#A0522D'', ''#654321''] False True False
        (str ''Timeless classic: whiskey, sugar, bitters, orange twist.'')),
     (str ''mojito'',
      cocktail ''Mojito'' ''rum'' ''herbal'' ''moderate'' 1 4 2
        [''#00AA66'', ''#FFE4B5'', ''#FFFFFF''] False True True
        (str ''Refreshing summer drink: white rum, mint, lime, soda, sugar.'')),
     (str ''margarita'',
      cocktail ''Margarita'' ''tequila'' ''sour'' ''moderate'' 0 4 3
        [''#FFE4B5'', ''#FFA500'', ''#FF6347''] False True False
        (str ''Iconic: tequila, lime, triple sec, salt rim.'')),
     (str ''espresso_martini'',
      cocktail ''Espresso Martini'' ''vodka'' ''bitter'' ''moderate'' 6 5 8
        [''#2F4F4F'', ''#8B7355'', ''#FFFFFF''] False False False
        (str ''Modern sophistication: vodka, coffee liqueur, espresso, cream.'')),
     (str ''sazerac'',
      cocktail ''Sazerac'' ''whiskey'' ''herbal'' ''simple'' 5 1 6
        [''#A0522D'', ''#8B4513'', ''#FFD700''] False True False
        (str ''New Orleans classic: rye, absinthe, Peychaud's bitters.''))]"

section \<open>The profile cache\<close>

text \<open>
  The module keeps one mutable dict, \<^verbatim>\<open>_profile_cache\<close>; a Python dict keeps its keys in
  insertion order, so it is an association list. \<open>stdout\<close> records what the
  cache-population step prints: one entry \<open>(cocktail_key, e)\<close> for each line
  \<^verbatim>\<open>Error processing {cocktail_key}: {e}\<close>.
\<close>

record server_state =
  profile_cache :: "(pystr \<times> CocktailProfile) list"
  stdout :: "(pystr \<times> exn) list"

text \<open>
  The loop of \<^verbatim>\<open>_ensure_cached\<close> over the items of the table, which is a parameter
  here so that tables other than the static one can be considered.
  \<^verbatim>\<open>except Exception\<close> catches every exception of the conversion.
\<close>

fun populate :: "taxonomy \<Rightarrow> server_state \<Rightarrow> server_state" where
  "populate [] st = st"
| "populate ((cocktail_key, cocktail_data) # rest) st =
     populate rest
       (case cocktail_to_profile cocktail_data of
          Inr profile \<Rightarrow>
            st\<lparr>profile_cache := AList.update cocktail_key profile (profile_cache st)\<rparr>
        | Inl e \<Rightarrow> st\<lparr>stdout := stdout st @ [(cocktail_key, e)]\<rparr>)"

definition ensure_cached :: "taxonomy \<Rightarrow> server_state \<Rightarrow> server_state" where
  "ensure_cached tax st = (if profile_cache st = [] then populate tax st else st)"

section \<open>The tools\<close>

text \<open>A response is a Python dict of JSON-like values, in insertion order.\<close>

datatype json = JStr pystr | JInt int | JList "json list" | JDict "(pystr \<times> json) list"

type_synonym pydict = "(pystr \<times> json) list"

definition quote :: pystr where
  "quote = [39]"

definition to_dict :: "VisualParameters \<Rightarrow> pydict" where
  "to_dict v =
    [(str ''primary_color'', JStr (ColorCategory_value (primary_color_category v))),
     (str ''color_palette'', JList (map JStr (color_palette v))),
     (str ''lighting'', JStr (LightingStyle_value (lighting_style v))),
     (str ''mood'', JStr (MoodDescriptor_value (primary_mood v))),
     (str ''secondary_moods'', JList (map (JStr \<circ> MoodDescriptor_value) (secondary_moods v))),
     (str ''composition'', JStr (CompositionApproach_value (composition_strategy v))),
     (str ''texture'', JStr (TextureQuality_value (texture_quality v))),
     (str ''temperature'', JStr (TemperatureVibe_value (temperature_vibe v)))]"

text \<open>
  The key expression \<^verbatim>\<open>cocktail_name.lower().replace(" ", "_").replace("-", "_")\<close>,
  which the three name-taking tools repeat word for word.
\<close>

definition lookup_key :: "pystr \<Rightarrow> pystr" where
  "lookup_key cocktail_name = replace (replace (lower cocktail_name) 32 95) 45 95"

text \<open>
  The expression \<^verbatim>\<open>[visual.primary_mood.value] + [m.value for m in visual.secondary_moods]\<close>
  of \<^verbatim>\<open>get_visual_parameters\<close> and \<^verbatim>\<open>enhance_prompt_with_cocktail\<close>.
\<close>

definition mood_keywords :: "VisualParameters \<Rightarrow> pystr list" where
  "mood_keywords visual =
    [MoodDescriptor_value (primary_mood visual)]
      @ map MoodDescriptor_value (secondary_moods visual)"

definition not_found :: "pystr \<Rightarrow> pydict" where
  "not_found cocktail_name =
    [(str ''error'', JStr (str ''Cocktail '' @ quote @ cocktail_name @ quote @ str '' not found''))]"

definition list_cocktails :: "taxonomy \<Rightarrow> server_state \<Rightarrow> pydict \<times> server_state" where
  "list_cocktails tax st0 =
    (let st = ensure_cached tax st0;
         cocktails =
           map (\<lambda>(key, profile).
                  JDict [(str ''id'', JStr key),
                         (str ''name'', JStr (name profile)),
                         (str ''spirit_base'', JStr (SpiritBase_value (spirit_base profile))),
                         (str ''primary_flavor'',
                            JStr (FlavorType_value (CocktailProfile.primary_flavor profile))),
                         (str ''description'', JStr (description profile))])
               (profile_cache st)
     in ([(str ''cocktails'', JList cocktails),
          (str ''count'', JInt (int (length cocktails)))], st))"

definition get_cocktail_profile ::
  "taxonomy \<Rightarrow> pystr \<Rightarrow> server_state \<Rightarrow> pydict \<times> server_state" where
  "get_cocktail_profile tax cocktail_name st0 =
    (let st = ensure_cached tax st0;
         key = lookup_key cocktail_name
     in case map_of (profile_cache st) key of
          None \<Rightarrow> (not_found cocktail_name, st)
        | Some profile \<Rightarrow>
            ([(str ''name'', JStr (name profile)),
              (str ''spirit_base'', JStr (SpiritBase_value (spirit_base profile))),
              (str ''primary_flavor'',
                 JStr (FlavorType_value (CocktailProfile.primary_flavor profile))),
              (str ''flavor_profile'',
                 JDict [(str ''complexity'',
                           JStr (ComplexityLevel_value (complexity (flavor_profile profile)))),
                        (str ''bitterness'', JInt (bitterness (flavor_profile profile))),
                        (str ''sweetness'', JInt (sweetness (flavor_profile profile))),
                        (str ''richness'', JInt (richness (flavor_profile profile))),
                        (str ''warmth_level'', JInt (warmth_level (flavor_profile profile)))]),
              (str ''description'', JStr (description profile))], st))"

definition get_visual_parameters ::
  "taxonomy \<Rightarrow> pystr \<Rightarrow> server_state \<Rightarrow> pydict \<times> server_state" where
  "get_visual_parameters tax cocktail_name st0 =
    (let st = ensure_cached tax st0;
         key = lookup_key cocktail_name
     in case map_of (profile_cache st) key of
          None \<Rightarrow> (not_found cocktail_name, st)
        | Some profile \<Rightarrow>
            (let visual = visual_parameters profile
             in ([(str ''cocktail'', JStr (name profile)),
                  (str ''visual_parameters'', JDict (to_dict visual)),
                  (str ''composition_strategy'',
                     JStr (CompositionApproach_value (composition_strategy visual))),
                  (str ''temperature_vibe'',
                     JStr (TemperatureVibe_value (temperature_vibe visual))),
                  (str ''mood_keywords'', JList (map JStr (mood_keywords visual)))], st)))"

definition enhance_prompt_with_cocktail ::
  "taxonomy \<Rightarrow> pystr \<Rightarrow> pystr \<Rightarrow> server_state \<Rightarrow> pydict \<times> server_state" where
  "enhance_prompt_with_cocktail tax base_prompt cocktail_name st0 =
    (let st = ensure_cached tax st0;
         key = lookup_key cocktail_name
     in case map_of (profile_cache st) key of
          None \<Rightarrow> (not_found cocktail_name, st)
        | Some profile \<Rightarrow>
            (let visual = visual_parameters profile
             in ([(str ''original_prompt'', JStr base_prompt),
                  (str ''cocktail'', JStr (name profile)),
                  (str ''color_direction'', JList (map JStr (color_palette visual))),
                  (str ''lighting_style'', JStr (LightingStyle_value (lighting_style visual))),
                  (str ''mood_keywords'', JList (map JStr (mood_keywords visual))),
                  (str ''composition_guide'',
                     JStr (CompositionApproach_value (composition_strategy visual))),
                  (str ''texture_notes'', JStr (TextureQuality_value (texture_quality visual))),
                  (str ''temperature_vibe'',
                     JStr (TemperatureVibe_value (temperature_vibe visual))),
                  (str ''suggested_enhancement'',
                     JStr (str ''Add these aesthetic qualities to your prompt: ''
                           @ join (str '', '') (mood_keywords visual) @ str ''. ''
                           @ str ''Use '' @ LightingStyle_value (lighting_style visual)
                           @ str '' lighting. ''
                           @ str ''Color palette suggestion: ''
                           @ join (str '', '') (take 2 (color_palette visual)) @ str ''. ''
                           @ str ''Composition: ''
                           @ CompositionApproach_value (composition_strategy visual) @ str ''. ''
                           @ str ''Texture: '' @ TextureQuality_value (texture_quality visual)
                           @ str ''.''))], st)))"

definition search_cocktails_by_flavor ::
  "taxonomy \<Rightarrow> pystr \<Rightarrow> server_state \<Rightarrow> pydict \<times> server_state" where
  "search_cocktails_by_flavor tax flavor st0 =
    (let st = ensure_cached tax st0;
         flavor_lower = lower flavor;
         matching =
           map (\<lambda>(key, profile).
                  JDict [(str ''name'', JStr (name profile)),
                         (str ''id'', JStr key),
                         (str ''description'', JStr (description profile))])
               (filter (\<lambda>(key, profile).
                          FlavorType_value (CocktailProfile.primary_flavor profile) = flavor_lower)
                       (profile_cache st))
     in ([(str ''flavor'', JStr flavor_lower),
          (str ''matches'', JList matching),
          (str ''count'', JInt (int (length matching)))], st))"

text \<open>\<^verbatim>\<open>get_spirit_warmth\<close> reads its own table and never touches the cache.\<close>

definition warmth_map :: "(pystr \<times> int) list" where
  "warmth_map =
    [(str ''rum'', 9), (str ''whiskey'', 8), (str ''cognac'', 9), (str ''mezcal'', 8),
     (str ''tequila'', 7), (str ''gin'', 5), (str ''vodka'', 3)]"

definition get_spirit_warmth :: "pystr \<Rightarrow> pydict" where
  "get_spirit_warmth spirit_name =
    (let spirit_lower = lower spirit_name
     in case map_of warmth_map spirit_lower of
          None \<Rightarrow>
            [(str ''error'',
              JStr (str ''Spirit '' @ quote @ spirit_name @ quote @ str '' not recognized''))]
        | Some warmth \<Rightarrow>
            (let interpretation =
                   (if warmth \<ge> 8 then str ''very warm, golden, nostalgic''
                    else if warmth \<ge> 6 then str ''warm, moderate, balanced''
                    else str ''cool, crisp, clean'')
             in [(str ''spirit'', JStr spirit_lower),
                 (str ''warmth_level'', JInt warmth),
                 (str ''interpretation'', JStr interpretation)]))"

section \<open>Auxiliary notions for the statements\<close>

text \<open>The state of a freshly started process: nothing cached, nothing printed.\<close>

definition initial_state :: server_state where
  "initial_state = \<lparr> profile_cache = [], stdout = [] \<rparr>"

text \<open>A string all of whose code points are ASCII.\<close>

definition ascii :: "pystr \<Rightarrow> bool" where
  "ascii s = list_all (\<lambda>c. c < 128) s"

section \<open>Facts about strings\<close>

lemmas str_eval = str_def lower_def lower_cp_def upper_def upper_cp_def lower_special_def
  upper_special_def replace_def

lemma lower_append: "lower (a @ b) = lower a @ lower b"
  by (simp add: lower_def)

lemma upper_append: "upper (a @ b) = upper a @ upper b"
  by (simp add: upper_def)

lemma lower_cp_ascii:
  "c < 128 \<Longrightarrow> lower_cp c = [if 65 \<le> c \<and> c \<le> 90 then c + 32 else c]"
  by (auto simp: lower_cp_def lower_special_def)

lemma upper_cp_ascii:
  "c < 128 \<Longrightarrow> upper_cp c = [if 97 \<le> c \<and> c \<le> 122 then c - 32 else c]"
  by (auto simp: upper_cp_def upper_special_def)

text \<open>On ASCII, lowering after raising a lowered string changes nothing.\<close>

lemma lower_upper_lower_cp:
  assumes "c < 128"
  shows "lower (upper (lower_cp c)) = lower_cp c"
proof -
  let ?l = "if 65 \<le> c \<and> c \<le> 90 then c + 32 else c"
  let ?u = "if 97 \<le> ?l \<and> ?l \<le> 122 then ?l - 32 else ?l"
  from assms have l: "?l < 128" by simp
  from assms have u: "?u < 128" by auto
  have "lower (upper (lower_cp c)) = lower (upper [?l])"
    using assms by (simp only: lower_cp_ascii)
  also have "\<dots> = lower [?u]"
    using upper_cp_ascii [OF l] by (simp add: upper_def)
  also have "\<dots> = [if 65 \<le> ?u \<and> ?u \<le> 90 then ?u + 32 else ?u]"
    using lower_cp_ascii [OF u] by (simp add: lower_def)
  also have "\<dots> = [?l]" by auto
  also have "\<dots> = lower_cp c"
    using assms by (simp only: lower_cp_ascii)
  finally show ?thesis .
qed

lemma lower_upper_lower:
  "ascii s \<Longrightarrow> lower (upper (lower s)) = lower s"
proof (induction s)
  case Nil
  then show ?case by (simp add: lower_def upper_def)
next
  case (Cons c s)
  then have c: "c < 128" and s: "ascii s" by (simp_all add: ascii_def)
  have "lower (c # s) = lower_cp c @ lower s" by (simp add: lower_def)
  then have "lower (upper (lower (c # s)))
      = lower (upper (lower_cp c)) @ lower (upper (lower s))"
    by (simp add: upper_append lower_append)
  also have "\<dots> = lower_cp c @ lower s"
    by (simp add: lower_upper_lower_cp [OF c] Cons.IH [OF s])
  also have "\<dots> = lower (c # s)" by (simp add: lower_def)
  finally show ?case .
qed

lemma lower_FlavorType_name: "lower (FlavorType_name m) = FlavorType_value m"
  by (cases m) (simp_all add: str_eval)

lemma ascii_flavor_label:
  assumes "ascii f" and "upper (lower f) \<in> set (map FlavorType_name FlavorType_members)"
  shows "lower f \<in> set (map FlavorType_value FlavorType_members)"
proof -
  from assms(2) obtain m
    where m: "m \<in> set FlavorType_members" and "upper (lower f) = FlavorType_name m"
    by auto
  then have "lower (upper (lower f)) = FlavorType_value m"
    by (simp add: lower_FlavorType_name)
  with assms(1) have "lower f = FlavorType_value m"
    by (simp add: lower_upper_lower)
  with m show ?thesis by simp
qed

section \<open>Facts about the enumeration lookups\<close>

lemma SpiritBase_of_value_Inl:
  "s \<notin> set (map SpiritBase_value SpiritBase_members) \<Longrightarrow>
     SpiritBase_of_value s = Inl (ValueError s)"
  by (auto simp: SpiritBase_of_value_def find_None_iff split: option.splits)

lemma FlavorType_getitem_Inl:
  "s \<notin> set (map FlavorType_name FlavorType_members) \<Longrightarrow>
     FlavorType_getitem s = Inl (KeyError s)"
  by (auto simp: FlavorType_getitem_def find_None_iff split: option.splits)

lemma ComplexityLevel_of_value_Inl:
  "s \<notin> set (map ComplexityLevel_value ComplexityLevel_members) \<Longrightarrow>
     ComplexityLevel_of_value s = Inl (ValueError s)"
  by (auto simp: ComplexityLevel_of_value_def find_None_iff split: option.splits)

lemma SpiritBase_of_value_found:
  "s \<in> set (map SpiritBase_value SpiritBase_members) \<Longrightarrow> \<exists>m. SpiritBase_of_value s = Inr m"
  by (cases "find (\<lambda>m. SpiritBase_value m = s) SpiritBase_members")
    (auto simp: SpiritBase_of_value_def find_None_iff)

lemma FlavorType_getitem_found:
  "s \<in> set (map FlavorType_name FlavorType_members) \<Longrightarrow> \<exists>m. FlavorType_getitem s = Inr m"
  by (cases "find (\<lambda>m. FlavorType_name m = s) FlavorType_members")
    (auto simp: FlavorType_getitem_def find_None_iff)

section \<open>Facts about the cache population\<close>

text \<open>
  What the cache holds under a key after the loop: the profile of the table's record
  for that key if its conversion succeeded, and what it held before otherwise. The
  table is a dict, so its keys are distinct.
\<close>

lemma populate_cache_lookup:
  "distinct (map fst tax) \<Longrightarrow>
   map_of (profile_cache (populate tax st)) k =
     (case map_of tax k of
        None \<Rightarrow> map_of (profile_cache st) k
      | Some d \<Rightarrow> (case cocktail_to_profile d of
                    Inr p \<Rightarrow> Some p
                  | Inl e \<Rightarrow> map_of (profile_cache st) k))"
proof (induction tax arbitrary: st)
  case Nil
  then show ?case by simp
next
  case (Cons a tax)
  obtain k' d' where a: "a = (k', d')" by (cases a)
  from Cons.prems a have dist: "distinct (map fst tax)" and fresh: "k' \<notin> fst ` set tax"
    by auto
  from fresh have none: "map_of tax k' = None"
    by (simp add: map_of_eq_None_iff)
  show ?case
  proof (cases "cocktail_to_profile d'")
    case (Inl e)
    with a none show ?thesis
      by (simp add: Cons.IH [OF dist] split: option.splits sum.splits)
  next
    case (Inr p)
    with a none show ?thesis
      by (simp add: Cons.IH [OF dist] update_conv' split: option.splits sum.splits)
  qed
qed

lemma populate_stdout:
  "stdout (populate tax st) =
     stdout st @ concat (map (\<lambda>(k, d). case cocktail_to_profile d of
                                Inl e \<Rightarrow> [(k, e)] | Inr p \<Rightarrow> []) tax)"
  by (induction tax arbitrary: st) (auto split: sum.splits)

lemma ensure_cached_lookup:
  assumes "distinct (map fst tax)" and "profile_cache st = []"
  shows "map_of (profile_cache (ensure_cached tax st)) k =
     (case map_of tax k of
        None \<Rightarrow> None
      | Some d \<Rightarrow> (case cocktail_to_profile d of Inr p \<Rightarrow> Some p | Inl e \<Rightarrow> None))"
  using assms
  by (simp add: ensure_cached_def populate_cache_lookup split: option.splits sum.splits)

lemma ensure_cached_stdout:
  assumes "profile_cache st = []" and "(k, d) \<in> set tax" and "cocktail_to_profile d = Inl e"
  shows "(k, e) \<in> set (stdout (ensure_cached tax st))"
proof -
  from assms(2,3)
  have "(k, e) \<in> set (concat (map (\<lambda>(k, d). case cocktail_to_profile d of
                                Inl e \<Rightarrow> [(k, e)] | Inr p \<Rightarrow> []) tax))"
    by force
  with assms(1) show ?thesis
    by (simp add: ensure_cached_def populate_stdout)
qed

lemma taxonomy_keys_distinct: "distinct (map fst COCKTAIL_TAXONOMY)"
  by (simp add: COCKTAIL_TAXONOMY_def str_def)

text \<open>The conversion of a record literal with all twelve keys.\<close>

lemma cocktail_to_profile_cocktail:
  "cocktail_to_profile (cocktail n sb pf cx b s r pal cream ice eff desc) =
    (case SpiritBase_of_value (lower (str sb)) of
       Inl e \<Rightarrow> Inl e
     | Inr spirit \<Rightarrow>
    (case FlavorType_getitem (upper (lower (str pf))) of
       Inl e \<Rightarrow> Inl e
     | Inr flavor \<Rightarrow>
    (case ComplexityLevel_of_value (lower (str cx)) of
       Inl e \<Rightarrow> Inl e
     | Inr c \<Rightarrow>
        Inr \<lparr> name = str n, spirit_base = spirit, primary_flavor = flavor,
              flavor_profile =
                \<lparr> FlavorProfile.primary_flavor = flavor, secondary_flavors = [],
                  complexity = c, warmth_level = spirit_base_to_warmth spirit,
                  bitterness = b, sweetness = s, richness = r \<rparr>,
              visual_parameters =
                build_visual_parameters spirit flavor c b s r (map str pal) cream ice eff,
              description = desc \<rparr>)))"
  by (simp add: cocktail_to_profile_def cocktail_def get_default_def Let_def
      split: sum.splits)

lemmas enum_eval = SpiritBase_of_value_def FlavorType_getitem_def ComplexityLevel_of_value_def
  SpiritBase_members_def FlavorType_members_def ComplexityLevel_members_def

text \<open>The static table's entry for the Old Fashioned, once cached.\<close>

lemma old_fashioned_cached:
  "map_of (profile_cache (ensure_cached COCKTAIL_TAXONOMY initial_state)) (str ''old_fashioned'')
     = Some \<lparr> name = str ''Old Fashioned'', spirit_base = WHISKEY,
             primary_flavor = SPIRIT_FORWARD,
             flavor_profile =
               \<lparr> FlavorProfile.primary_flavor = SPIRIT_FORWARD, secondary_flavors = [],
                 complexity = SIMPLE, warmth_level = 8,
                 bitterness = 4, sweetness = 2, richness = 7 \<rparr>,
             visual_parameters =
               build_visual_parameters WHISKEY SPIRIT_FORWARD SIMPLE 4 2 7
                 [str ''#8B4513'', str ''#A0522D'', str ''#654321''] False True False,
             description = str ''Timeless classic: whiskey, sugar, bitters, orange twist.'' \<rparr>"
proof -
  let ?d = "cocktail ''Old Fashioned'' ''whiskey'' ''spirit_forward'' ''simple'' 4 2 7
        [''#8B4513'', ''#A0522D'', ''#654321''] False True False
        (str ''Timeless classic: whiskey, sugar, bitters, orange twist.'')"
  have "(str ''old_fashioned'', ?d) \<in> set COCKTAIL_TAXONOMY"
    by (simp add: COCKTAIL_TAXONOMY_def)
  with taxonomy_keys_distinct have "map_of COCKTAIL_TAXONOMY (str ''old_fashioned'') = Some ?d"
    by simp
  moreover have "profile_cache initial_state = []"
    by (simp add: initial_state_def)
  ultimately show ?thesis
    by (simp add: ensure_cached_lookup [OF taxonomy_keys_distinct]
        cocktail_to_profile_cocktail enum_eval str_eval)
qed

text \<open>
  Which exception the conversion raises on a bad label. The statements run in order, so
  a bad spirit decides first, then a bad flavor, then a bad complexity; the flavor test
  is on the member name of the lower-cased and then upper-cased string, which for an
  ASCII string fails whenever the lower-cased string is no label.
\<close>

lemma conversion_raises_on_bad_label:
  "(raw_spirit_base d = Some sb
      \<and> lower sb \<notin> set (map SpiritBase_value SpiritBase_members) \<longrightarrow>
        cocktail_to_profile d = Inl (ValueError (lower sb)))
   \<and> (raw_spirit_base d = Some sb
      \<and> lower sb \<in> set (map SpiritBase_value SpiritBase_members)
      \<and> raw_primary_flavor d = Some pf
      \<and> upper (lower pf) \<notin> set (map FlavorType_name FlavorType_members) \<longrightarrow>
        cocktail_to_profile d = Inl (KeyError (upper (lower pf))))
   \<and> (ascii pf \<and> lower pf \<notin> set (map FlavorType_value FlavorType_members) \<longrightarrow>
        upper (lower pf) \<notin> set (map FlavorType_name FlavorType_members))
   \<and> (raw_spirit_base d = Some sb
      \<and> lower sb \<in> set (map SpiritBase_value SpiritBase_members)
      \<and> raw_primary_flavor d = Some pf
      \<and> upper (lower pf) \<in> set (map FlavorType_name FlavorType_members)
      \<and> lower (get_default (raw_complexity d) (str ''moderate''))
          \<notin> set (map ComplexityLevel_value ComplexityLevel_members) \<longrightarrow>
        cocktail_to_profile d
          = Inl (ValueError (lower (get_default (raw_complexity d) (str ''moderate'')))))"
proof -
  have spirit: "cocktail_to_profile d = Inl (ValueError (lower sb))"
    if "raw_spirit_base d = Some sb"
      and "lower sb \<notin> set (map SpiritBase_value SpiritBase_members)"
    using that by (simp add: cocktail_to_profile_def SpiritBase_of_value_Inl)
  have flavor: "cocktail_to_profile d = Inl (KeyError (upper (lower pf)))"
    if "raw_spirit_base d = Some sb"
      and "lower sb \<in> set (map SpiritBase_value SpiritBase_members)"
      and "raw_primary_flavor d = Some pf"
      and "upper (lower pf) \<notin> set (map FlavorType_name FlavorType_members)"
  proof -
    from that(2) obtain m where "SpiritBase_of_value (lower sb) = Inr m"
      using SpiritBase_of_value_found by blast
    with that(1,3,4) show ?thesis
      by (simp add: cocktail_to_profile_def FlavorType_getitem_Inl Let_def)
  qed
  have flavor_ascii: "upper (lower pf) \<notin> set (map FlavorType_name FlavorType_members)"
    if "ascii pf" and "lower pf \<notin> set (map FlavorType_value FlavorType_members)"
    using that ascii_flavor_label by blast
  have cx: "cocktail_to_profile d
          = Inl (ValueError (lower (get_default (raw_complexity d) (str ''moderate''))))"
    if "raw_spirit_base d = Some sb"
      and "lower sb \<in> set (map SpiritBase_value SpiritBase_members)"
      and "raw_primary_flavor d = Some pf"
      and "upper (lower pf) \<in> set (map FlavorType_name FlavorType_members)"
      and "lower (get_default (raw_complexity d) (str ''moderate''))
          \<notin> set (map ComplexityLevel_value ComplexityLevel_members)"
  proof -
    from that(2) obtain m where "SpiritBase_of_value (lower sb) = Inr m"
      using SpiritBase_of_value_found by blast
    moreover from that(4) obtain f where "FlavorType_getitem (upper (lower pf)) = Inr f"
      using FlavorType_getitem_found by blast
    ultimately show ?thesis
      using that(1,3,5)
      by (simp add: cocktail_to_profile_def ComplexityLevel_of_value_Inl Let_def)
  qed
  from spirit flavor flavor_ascii cx show ?thesis by blast
qed

text \<open>
  The cache population catches the exception of a record: the record's key stays out of
  the cache, one line for the key and the exception is printed, and every record of the
  table whose conversion succeeds is cached under its key.
\<close>

lemma ensure_cached_skips_failed_record:
  assumes bad: "cocktail_to_profile d = Inl e" and dist: "distinct (map fst tax)"
    and mem: "(k, d) \<in> set tax" and emp: "profile_cache st = []"
  shows "map_of (profile_cache (ensure_cached tax st)) k = None
    \<and> (k, e) \<in> set (stdout (ensure_cached tax st))
    \<and> (\<forall>k' d' p'. (k', d') \<in> set tax \<and> cocktail_to_profile d' = Inr p' \<longrightarrow>
          map_of (profile_cache (ensure_cached tax st)) k' = Some p')"
proof (intro conjI allI impI)
  from dist mem have "map_of tax k = Some d" by simp
  with bad show "map_of (profile_cache (ensure_cached tax st)) k = None"
    by (simp add: ensure_cached_lookup [OF dist emp])
  from emp mem bad show "(k, e) \<in> set (stdout (ensure_cached tax st))"
    by (rule ensure_cached_stdout)
next
  fix k' d' p'
  assume a: "(k', d') \<in> set tax \<and> cocktail_to_profile d' = Inr p'"
  with dist have "map_of tax k' = Some d'" by simp
  with a show "map_of (profile_cache (ensure_cached tax st)) k' = Some p'"
    by (simp add: ensure_cached_lookup [OF dist emp])
qed

section \<open>The mapping functions\<close>

text \<open>
  C1. For every warmth and complexity the final lighting rule gives golden\_hour when
  warmth is at least 8 and the complexity is complex, moody\_amber when warmth is at
  least 8 and the complexity is not complex, crisp\_backlit when warmth is at most 4,
  and warm\_side\_lit otherwise (warmth 5, 6 or 7); the four sample points of the
  specification follow.
\<close>

theorem lighting_rule:
  "(8 \<le> w \<and> cx = COMPLEX \<longrightarrow> warmth_and_complexity_to_lighting w cx = GOLDEN_HOUR)
   \<and> (8 \<le> w \<and> cx \<noteq> COMPLEX \<longrightarrow> warmth_and_complexity_to_lighting w cx = MOODY_AMBER)
   \<and> (w \<le> 4 \<longrightarrow> warmth_and_complexity_to_lighting w cx = CRISP_BACKLIT)
   \<and> (\<not> 8 \<le> w \<and> \<not> w \<le> 4 \<longrightarrow> warmth_and_complexity_to_lighting w cx = WARM_SIDE_LIT)
   \<and> warmth_and_complexity_to_lighting 9 COMPLEX = GOLDEN_HOUR
   \<and> warmth_and_complexity_to_lighting 9 SIMPLE = MOODY_AMBER
   \<and> warmth_and_complexity_to_lighting 3 cx = CRISP_BACKLIT
   \<and> warmth_and_complexity_to_lighting 6 MODERATE = WARM_SIDE_LIT"
  by (simp add: warmth_and_complexity_to_lighting_def)

theorem lighting_rule_witness:
  "warmth_and_complexity_to_lighting 8 COMPLEX = GOLDEN_HOUR
   \<and> warmth_and_complexity_to_lighting 8 MODERATE = MOODY_AMBER
   \<and> warmth_and_complexity_to_lighting 4 COMPLEX = CRISP_BACKLIT
   \<and> warmth_and_complexity_to_lighting 5 SIMPLE = WARM_SIDE_LIT"
  using lighting_rule [of 8 COMPLEX] lighting_rule [of 8 MODERATE]
    lighting_rule [of 4 COMPLEX] lighting_rule [of 5 SIMPLE]
  by simp

text \<open>
  C3. For every combination of the three booleans the texture is creamy when there is
  cream, otherwise effervescent when the drink is effervescent, otherwise crystalline
  when there is ice, otherwise translucent. The arguments are in the source's order
  (has\_cream, has\_ice, is\_effervescent); the specification's sample triples are
  written (cream, effervescent, ice).
\<close>

theorem texture_priority:
  "(hc \<longrightarrow> texture_from_components hc hi ef = TextureQuality.CREAMY)
   \<and> (\<not> hc \<and> ef \<longrightarrow> texture_from_components hc hi ef = EFFERVESCENT)
   \<and> (\<not> hc \<and> \<not> ef \<and> hi \<longrightarrow> texture_from_components hc hi ef = CRYSTALLINE)
   \<and> (\<not> hc \<and> \<not> ef \<and> \<not> hi \<longrightarrow> texture_from_components hc hi ef = TRANSLUCENT)
   \<and> texture_from_components True True True = TextureQuality.CREAMY
   \<and> texture_from_components False True True = EFFERVESCENT
   \<and> texture_from_components False True False = CRYSTALLINE
   \<and> texture_from_components False False False = TRANSLUCENT"
  by (simp add: texture_from_components_def)

theorem texture_priority_witness:
  "texture_from_components True False True = TextureQuality.CREAMY
   \<and> texture_from_components False False True = EFFERVESCENT
   \<and> texture_from_components False True False = CRYSTALLINE
   \<and> texture_from_components False False False = TRANSLUCENT"
  using texture_priority [of True False True] texture_priority [of False True False]
    texture_priority [of False False True] texture_priority [of False False False]
  by simp

section \<open>The orchestration\<close>

text \<open>
  C2. For every input of \<open>build_visual_parameters\<close> the secondary moods are what three
  independent checks leave of the fixed sequence elegant, aromatic, playful: elegant
  stays when richness is at least 7, aromatic when the complexity is complex, playful
  when sweetness is at least 6. So each check contributes at most one mood and the
  order is fixed. Richness 8, complex, sweetness 7 gives all three in that order;
  richness 2, simple, sweetness 1 gives the empty list.
\<close>

theorem secondary_moods_accumulate:
  "secondary_moods (build_visual_parameters spirit flavor cx bitter sweet rich palette hc hi ef)
     = filter (\<lambda>m. (m = ELEGANT \<and> 7 \<le> rich) \<or> (m = AROMATIC \<and> cx = COMPLEX)
                    \<or> (m = PLAYFUL \<and> 6 \<le> sweet))
         [ELEGANT, AROMATIC, PLAYFUL]
   \<and> secondary_moods (build_visual_parameters spirit flavor COMPLEX bitter 7 8 palette hc hi ef)
       = [ELEGANT, AROMATIC, PLAYFUL]
   \<and> secondary_moods (build_visual_parameters spirit flavor SIMPLE bitter 1 2 palette hc hi ef)
       = []"
  by (simp add: build_visual_parameters_def Let_def)

text \<open>
  C4. The result of \<open>build_visual_parameters\<close> does not depend on its bitterness
  argument: two calls that differ in the bitterness only return the same
  VisualParameters, hence the same lighting style. The bitterness-based lighting
  mapping is not part of the result.
\<close>

theorem bitterness_unused:
  "build_visual_parameters spirit flavor cx b1 sweet rich palette hc hi ef
     = build_visual_parameters spirit flavor cx b2 sweet rich palette hc hi ef"
  by (simp add: build_visual_parameters_def Let_def)

section \<open>The tools\<close>

text \<open>
  C7. When the normalized key of a cocktail name is not in the cache, each of the three
  name-taking tools returns the dict with the single key error, whose message quotes
  the name as it was given. The tools are total functions of their arguments and the
  state: no branch of them raises.
\<close>

theorem unknown_name_error:
  assumes "map_of (profile_cache (ensure_cached tax st)) (lookup_key n) = None"
  shows "fst (get_cocktail_profile tax n st)
           = [(str ''error'', JStr (str ''Cocktail '' @ quote @ n @ quote @ str '' not found''))]
       \<and> fst (get_visual_parameters tax n st)
           = [(str ''error'', JStr (str ''Cocktail '' @ quote @ n @ quote @ str '' not found''))]
       \<and> fst (enhance_prompt_with_cocktail tax base_prompt n st)
           = [(str ''error'', JStr (str ''Cocktail '' @ quote @ n @ quote @ str '' not found''))]"
  using assms
  by (simp add: get_cocktail_profile_def get_visual_parameters_def
      enhance_prompt_with_cocktail_def not_found_def Let_def)

theorem unknown_name_error_witness:
  "map_of (profile_cache (ensure_cached COCKTAIL_TAXONOMY initial_state))
       (lookup_key (str ''Dry Martini'')) = None
   \<and> fst (get_cocktail_profile COCKTAIL_TAXONOMY (str ''Dry Martini'') initial_state)
       = [(str ''error'', JStr (str ''Cocktail 'Dry Martini' not found''))]
   \<and> fst (get_visual_parameters COCKTAIL_TAXONOMY (str ''Dry Martini'') initial_state)
       = [(str ''error'', JStr (str ''Cocktail 'Dry Martini' not found''))]
   \<and> fst (enhance_prompt_with_cocktail COCKTAIL_TAXONOMY (str ''a bar at night'')
            (str ''Dry Martini'') initial_state)
       = [(str ''error'', JStr (str ''Cocktail 'Dry Martini' not found''))]"
proof -
  have key: "lookup_key (str ''Dry Martini'') = str ''dry_martini''"
    by (simp add: lookup_key_def str_eval)
  have "map_of COCKTAIL_TAXONOMY (str ''dry_martini'') = None"
    by (simp add: COCKTAIL_TAXONOMY_def str_def)
  then have h: "map_of (profile_cache (ensure_cached COCKTAIL_TAXONOMY initial_state))
       (lookup_key (str ''Dry Martini'')) = None"
    by (simp add: key ensure_cached_lookup [OF taxonomy_keys_distinct] initial_state_def)
  from unknown_name_error [OF h, of "str ''a bar at night''"] h show ?thesis
    by (simp add: str_def quote_def)
qed

text \<open>
  C10. The primary mood can occur again among the secondary moods: for the primary
  flavor herbal and a richness of at least 7, the list \<open>mood_keywords\<close> (the primary mood
  followed by the secondary moods) starts with elegant twice, so it is not
  duplicate-free. \<^verbatim>\<open>get_visual_parameters\<close> and \<^verbatim>\<open>enhance_prompt_with_cocktail\<close> return
  this list under the key mood\_keywords as it is, without removing duplicates.
\<close>

theorem mood_keywords_repeat:
  "(7 \<le> rich \<longrightarrow>
      take 2 (mood_keywords
               (build_visual_parameters spirit HERBAL cx bitter sweet rich palette hc hi ef))
        = [str ''elegant'', str ''elegant'']
      \<and> \<not> distinct (mood_keywords
               (build_visual_parameters spirit HERBAL cx bitter sweet rich palette hc hi ef)))
   \<and> (map_of (profile_cache (ensure_cached tax st)) (lookup_key n) = Some p \<longrightarrow>
        map_of (fst (get_visual_parameters tax n st)) (str ''mood_keywords'')
          = Some (JList (map JStr (mood_keywords (visual_parameters p))))
        \<and> map_of (fst (enhance_prompt_with_cocktail tax base_prompt n st)) (str ''mood_keywords'')
          = Some (JList (map JStr (mood_keywords (visual_parameters p)))))"
proof -
  have a: "mood_keywords
             (build_visual_parameters spirit HERBAL cx bitter sweet rich palette hc hi ef)
           = str ''elegant'' # str ''elegant'' #
               map MoodDescriptor_value
                 (filter (\<lambda>m. (m = AROMATIC \<and> cx = COMPLEX) \<or> (m = PLAYFUL \<and> 6 \<le> sweet))
                    [AROMATIC, PLAYFUL])"
    if "7 \<le> rich"
    using that by (simp add: build_visual_parameters_def mood_keywords_def Let_def)
  have b: "map_of (fst (get_visual_parameters tax n st)) (str ''mood_keywords'')
          = Some (JList (map JStr (mood_keywords (visual_parameters p))))"
    if "map_of (profile_cache (ensure_cached tax st)) (lookup_key n) = Some p"
    using that by (simp add: get_visual_parameters_def Let_def str_def)
  have c: "map_of (fst (enhance_prompt_with_cocktail tax base_prompt n st)) (str ''mood_keywords'')
          = Some (JList (map JStr (mood_keywords (visual_parameters p))))"
    if "map_of (profile_cache (ensure_cached tax st)) (lookup_key n) = Some p"
    using that by (simp add: enhance_prompt_with_cocktail_def Let_def str_def)
  from a b c show ?thesis by simp
qed

theorem mood_keywords_repeat_witness:
  "(7::int) \<le> 7
   \<and> mood_keywords (build_visual_parameters GIN HERBAL MODERATE 3 4 7 [] False True False)
       = [str ''elegant'', str ''elegant'']
   \<and> map_of (profile_cache
        (ensure_cached
          [(str ''last_word'',
            cocktail ''Last Word'' ''gin'' ''herbal'' ''moderate'' 3 4 7 [] False True False [])]
          initial_state)) (lookup_key (str ''Last Word''))
       = Some \<lparr> name = str ''Last Word'', spirit_base = GIN, primary_flavor = HERBAL,
              flavor_profile =
                \<lparr> FlavorProfile.primary_flavor = HERBAL, secondary_flavors = [],
                  complexity = MODERATE, warmth_level = 5,
                  bitterness = 3, sweetness = 4, richness = 7 \<rparr>,
              visual_parameters =
                build_visual_parameters GIN HERBAL MODERATE 3 4 7 [] False True False,
              description = [] \<rparr>
   \<and> map_of (fst (get_visual_parameters
        [(str ''last_word'',
          cocktail ''Last Word'' ''gin'' ''herbal'' ''moderate'' 3 4 7 [] False True False [])]
        (str ''Last Word'') initial_state)) (str ''mood_keywords'')
       = Some (JList [JStr (str ''elegant''), JStr (str ''elegant'')])"
proof -
  let ?d = "cocktail ''Last Word'' ''gin'' ''herbal'' ''moderate'' 3 4 7 [] False True False []"
  let ?tax = "[(str ''last_word'', ?d)]"
  let ?v = "build_visual_parameters GIN HERBAL MODERATE 3 4 7 [] False True False"
  let ?p = "\<lparr> name = str ''Last Word'', spirit_base = GIN, primary_flavor = HERBAL,
              flavor_profile =
                \<lparr> FlavorProfile.primary_flavor = HERBAL, secondary_flavors = [],
                  complexity = MODERATE, warmth_level = 5,
                  bitterness = 3, sweetness = 4, richness = 7 \<rparr>,
              visual_parameters = ?v, description = [] \<rparr>"
  have conv: "cocktail_to_profile ?d = Inr ?p"
    by (simp add: cocktail_to_profile_cocktail enum_eval str_eval)
  have key: "lookup_key (str ''Last Word'') = str ''last_word''"
    by (simp add: lookup_key_def str_eval)
  have h: "map_of (profile_cache (ensure_cached ?tax initial_state))
             (lookup_key (str ''Last Word'')) = Some ?p"
    by (simp add: key ensure_cached_lookup initial_state_def conv)
  have kw: "mood_keywords ?v = [str ''elegant'', str ''elegant'']"
    using mood_keywords_repeat [of 7 GIN MODERATE 3 4 "[]" False True False]
    by (simp add: build_visual_parameters_def mood_keywords_def Let_def)
  from mood_keywords_repeat [of 7 GIN MODERATE 3 4 "[]" False True False
        ?tax initial_state "str ''Last Word''" ?p] h kw
  show ?thesis by simp
qed

section \<open>The spirit warmth tool\<close>

text \<open>
  C9. \<^verbatim>\<open>get_spirit_warmth\<close> reads a table of exactly seven spirits and has no default.
  For a name whose lower-case form is in the table it returns spirit, warmth\_level and
  interpretation, where the interpretation is "very warm, golden, nostalgic" for a warmth
  of at least 8, "warm, moderate, balanced" for a warmth of at least 6 and
  "cool, crisp, clean" otherwise; the seven entries are listed. For every other name it
  returns the dict with the single key error, and no warmth of 5.
\<close>

theorem spirit_warmth_table:
  "map fst warmth_map
     = [str ''rum'', str ''whiskey'', str ''cognac'', str ''mezcal'', str ''tequila'',
        str ''gin'', str ''vodka'']
   \<and> (map_of warmth_map (lower s) = Some w \<longrightarrow>
        get_spirit_warmth s
          = [(str ''spirit'', JStr (lower s)),
             (str ''warmth_level'', JInt w),
             (str ''interpretation'',
                JStr (if 8 \<le> w then str ''very warm, golden, nostalgic''
                      else if 6 \<le> w then str ''warm, moderate, balanced''
                      else str ''cool, crisp, clean''))])
   \<and> (lower s = str ''rum'' \<longrightarrow>
        get_spirit_warmth s
          = [(str ''spirit'', JStr (str ''rum'')), (str ''warmth_level'', JInt 9),
             (str ''interpretation'', JStr (str ''very warm, golden, nostalgic''))])
   \<and> (lower s = str ''whiskey'' \<longrightarrow>
        get_spirit_warmth s
          = [(str ''spirit'', JStr (str ''whiskey'')), (str ''warmth_level'', JInt 8),
             (str ''interpretation'', JStr (str ''very warm, golden, nostalgic''))])
   \<and> (lower s = str ''cognac'' \<longrightarrow>
        get_spirit_warmth s
          = [(str ''spirit'', JStr (str ''cognac'')), (str ''warmth_level'', JInt 9),
             (str ''interpretation'', JStr (str ''very warm, golden, nostalgic''))])
   \<and> (lower s = str ''mezcal'' \<longrightarrow>
        get_spirit_warmth s
          = [(str ''spirit'', JStr (str ''mezcal'')), (str ''warmth_level'', JInt 8),
             (str ''interpretation'', JStr (str ''very warm, golden, nostalgic''))])
   \<and> (lower s = str ''tequila'' \<longrightarrow>
        get_spirit_warmth s
          = [(str ''spirit'', JStr (str ''tequila'')), (str ''warmth_level'', JInt 7),
             (str ''interpretation'', JStr (str ''warm, moderate, balanced''))])
   \<and> (lower s = str ''gin'' \<longrightarrow>
        get_spirit_warmth s
          = [(str ''spirit'', JStr (str ''gin'')), (str ''warmth_level'', JInt 5),
             (str ''interpretation'', JStr (str ''cool, crisp, clean''))])
   \<and> (lower s = str ''vodka'' \<longrightarrow>
        get_spirit_warmth s
          = [(str ''spirit'', JStr (str ''vodka'')), (str ''warmth_level'', JInt 3),
             (str ''interpretation'', JStr (str ''cool, crisp, clean''))])
   \<and> (lower s \<notin> set (map fst warmth_map) \<longrightarrow>
        get_spirit_warmth s
          = [(str ''error'',
              JStr (str ''Spirit '' @ quote @ s @ quote @ str '' not recognized''))])"
proof -
  have tbl: "map fst warmth_map
     = [str ''rum'', str ''whiskey'', str ''cognac'', str ''mezcal'', str ''tequila'',
        str ''gin'', str ''vodka'']"
    by (simp add: warmth_map_def)
  have band: "get_spirit_warmth s
          = [(str ''spirit'', JStr (lower s)),
             (str ''warmth_level'', JInt w),
             (str ''interpretation'',
                JStr (if 8 \<le> w then str ''very warm, golden, nostalgic''
                      else if 6 \<le> w then str ''warm, moderate, balanced''
                      else str ''cool, crisp, clean''))]"
    if "map_of warmth_map (lower s) = Some w" for w
    using that by (simp add: get_spirit_warmth_def Let_def)
  have entry: "get_spirit_warmth s
          = [(str ''spirit'', JStr (str l)),
             (str ''warmth_level'', JInt w),
             (str ''interpretation'',
                JStr (if 8 \<le> w then str ''very warm, golden, nostalgic''
                      else if 6 \<le> w then str ''warm, moderate, balanced''
                      else str ''cool, crisp, clean''))]"
    if "lower s = str l" and "map_of warmth_map (str l) = Some w" for l w
    using that band [of w] by simp
  have missing: "get_spirit_warmth s
          = [(str ''error'',
              JStr (str ''Spirit '' @ quote @ s @ quote @ str '' not recognized''))]"
    if "lower s \<notin> set (map fst warmth_map)"
  proof -
    from that have "map_of warmth_map (lower s) = None"
      by (simp add: map_of_eq_None_iff)
    then show ?thesis by (simp add: get_spirit_warmth_def Let_def)
  qed
  have m: "map_of warmth_map (str ''rum'') = Some 9"
    "map_of warmth_map (str ''whiskey'') = Some 8"
    "map_of warmth_map (str ''cognac'') = Some 9"
    "map_of warmth_map (str ''mezcal'') = Some 8"
    "map_of warmth_map (str ''tequila'') = Some 7"
    "map_of warmth_map (str ''gin'') = Some 5"
    "map_of warmth_map (str ''vodka'') = Some 3"
    by (simp_all add: warmth_map_def str_def)
  show ?thesis
    using tbl band missing entry [OF _ m(1)] entry [OF _ m(2)] entry [OF _ m(3)]
      entry [OF _ m(4)] entry [OF _ m(5)] entry [OF _ m(6)] entry [OF _ m(7)]
    by simp
qed

theorem spirit_warmth_table_witness:
  "get_spirit_warmth (str ''Tequila'')
     = [(str ''spirit'', JStr (str ''tequila'')), (str ''warmth_level'', JInt 7),
        (str ''interpretation'', JStr (str ''warm, moderate, balanced''))]
   \<and> get_spirit_warmth (str ''RUM'')
     = [(str ''spirit'', JStr (str ''rum'')), (str ''warmth_level'', JInt 9),
        (str ''interpretation'', JStr (str ''very warm, golden, nostalgic''))]
   \<and> get_spirit_warmth (str ''vodka'')
     = [(str ''spirit'', JStr (str ''vodka'')), (str ''warmth_level'', JInt 3),
        (str ''interpretation'', JStr (str ''cool, crisp, clean''))]
   \<and> get_spirit_warmth (str ''Sake'')
     = [(str ''error'', JStr (str ''Spirit 'Sake' not recognized''))]"
proof -
  have l: "lower (str ''Tequila'') = str ''tequila''" "lower (str ''RUM'') = str ''rum''"
    "lower (str ''vodka'') = str ''vodka''"
    by (simp_all add: str_eval)
  have n: "lower (str ''Sake'') \<notin> set (map fst warmth_map)"
    by (simp add: warmth_map_def str_eval)
  have a: "get_spirit_warmth (str ''Tequila'')
     = [(str ''spirit'', JStr (str ''tequila'')), (str ''warmth_level'', JInt 7),
        (str ''interpretation'', JStr (str ''warm, moderate, balanced''))]"
    using spirit_warmth_table [of "str ''Tequila''" 7] l(1) by simp
  have b: "get_spirit_warmth (str ''RUM'')
     = [(str ''spirit'', JStr (str ''rum'')), (str ''warmth_level'', JInt 9),
        (str ''interpretation'', JStr (str ''very warm, golden, nostalgic''))]"
    using spirit_warmth_table [of "str ''RUM''" 9] l(2) by simp
  have c: "get_spirit_warmth (str ''vodka'')
     = [(str ''spirit'', JStr (str ''vodka'')), (str ''warmth_level'', JInt 3),
        (str ''interpretation'', JStr (str ''cool, crisp, clean''))]"
    using spirit_warmth_table [of "str ''vodka''" 3] l(3) by simp
  have "get_spirit_warmth (str ''Sake'')
     = [(str ''error'',
         JStr (str ''Spirit '' @ quote @ str ''Sake'' @ quote @ str '' not recognized''))]"
    using spirit_warmth_table [of "str ''Sake''" 0] n by blast
  then have d: "get_spirit_warmth (str ''Sake'')
     = [(str ''error'', JStr (str ''Spirit 'Sake' not recognized''))]"
    by (simp add: quote_def str_def)
  from a b c d show ?thesis by simp
qed

section \<open>Bad labels\<close>

text \<open>
  C8. The source looks the spirit and the complexity up by value, and the primary flavor
  by member name after \<^verbatim>\<open>.lower()\<close> and \<^verbatim>\<open>.upper()\<close>. For the record below, whose primary
  flavor is written with the long s, U+017F, the lower-cased flavor string is no label
  of FlavorType, yet the conversion raises nothing and returns a profile with the
  primary flavor SOUR, because \<^verbatim>\<open>.upper()\<close> turns the long s into S. The same character in
  the spirit or in the complexity string makes the conversion raise ValueError.
\<close>

theorem long_s_flavor_converts:
  "lower (0x17F # str ''our'') \<notin> set (map FlavorType_value FlavorType_members)
   \<and> cocktail_to_profile
        ((cocktail ''Long S Sour'' ''gin'' ''sour'' ''simple'' 1 3 3 [] False True False [])
           \<lparr> raw_primary_flavor := Some (0x17F # str ''our'') \<rparr>)
     = Inr \<lparr> name = str ''Long S Sour'', spirit_base = GIN, primary_flavor = SOUR,
             flavor_profile =
               \<lparr> FlavorProfile.primary_flavor = SOUR, secondary_flavors = [],
                 complexity = SIMPLE, warmth_level = 5,
                 bitterness = 1, sweetness = 3, richness = 3 \<rparr>,
             visual_parameters =
               \<lparr> primary_color_category = CLEAR, color_palette = [],
                 lighting_style = WARM_SIDE_LIT, primary_mood = BOLD,
                 secondary_moods = [], composition_strategy = MINIMALIST,
                 texture_quality = CRYSTALLINE, temperature_vibe = AMBIENT \<rparr>,
             description = [] \<rparr>
   \<and> cocktail_to_profile
        ((cocktail ''Long S Sour'' ''gin'' ''sour'' ''simple'' 1 3 3 [] False True False [])
           \<lparr> raw_spirit_base := Some (str ''whi'' @ 0x17F # str ''key'') \<rparr>)
     = Inl (ValueError (str ''whi'' @ 0x17F # str ''key''))
   \<and> cocktail_to_profile
        ((cocktail ''Long S Sour'' ''gin'' ''sour'' ''simple'' 1 3 3 [] False True False [])
           \<lparr> raw_complexity := Some (0x17F # str ''imple'') \<rparr>)
     = Inl (ValueError (0x17F # str ''imple''))"
  by (simp add: cocktail_to_profile_def cocktail_def get_default_def enum_eval str_eval
      build_visual_parameters_def warmth_and_complexity_to_lighting_def
      texture_from_components_def Let_def)

section \<open>Key normalization\<close>

text \<open>
  \<^verbatim>\<open>search_cocktails_by_flavor\<close> only lowercases its argument. The two flavors below have
  the same normalized key, but the search finds the Old Fashioned for one and nothing
  for the other.
\<close>

theorem normalization_counterexample:
  "lookup_key (str ''spirit forward'') = lookup_key (str ''spirit_forward'')
   \<and> fst (search_cocktails_by_flavor COCKTAIL_TAXONOMY (str ''spirit forward'') initial_state)
     = [(str ''flavor'', JStr (str ''spirit forward'')),
        (str ''matches'', JList []),
        (str ''count'', JInt 0)]
   \<and> fst (search_cocktails_by_flavor COCKTAIL_TAXONOMY (str ''spirit_forward'') initial_state)
     = [(str ''flavor'', JStr (str ''spirit_forward'')),
        (str ''matches'',
           JList [JDict [(str ''name'', JStr (str ''Old Fashioned'')),
                         (str ''id'', JStr (str ''old_fashioned'')),
                         (str ''description'',
                            JStr (str ''Timeless classic: whiskey, sugar, bitters, orange twist.''))]]),
        (str ''count'', JInt 1)]"
proof -
  have "lookup_key (str ''spirit forward'') = lookup_key (str ''spirit_forward'')"
    by (simp add: lookup_key_def str_eval)
  moreover
  have "fst (search_cocktails_by_flavor COCKTAIL_TAXONOMY (str ''spirit forward'') initial_state)
     = [(str ''flavor'', JStr (str ''spirit forward'')),
        (str ''matches'', JList []),
        (str ''count'', JInt 0)]"
    by (simp add: search_cocktails_by_flavor_def ensure_cached_def initial_state_def
        COCKTAIL_TAXONOMY_def cocktail_to_profile_cocktail enum_eval str_eval Let_def)
  moreover
  have "fst (search_cocktails_by_flavor COCKTAIL_TAXONOMY (str ''spirit_forward'') initial_state)
     = [(str ''flavor'', JStr (str ''spirit_forward'')),
        (str ''matches'',
           JList [JDict [(str ''name'', JStr (str ''Old Fashioned'')),
                         (str ''id'', JStr (str ''old_fashioned'')),
                         (str ''description'',
                            JStr (str ''Timeless classic: whiskey, sugar, bitters, orange twist.''))]]),
        (str ''count'', JInt 1)]"
    by (simp add: search_cocktails_by_flavor_def ensure_cached_def initial_state_def
        COCKTAIL_TAXONOMY_def cocktail_to_profile_cocktail enum_eval str_eval Let_def)
  ultimately show ?thesis by (simp only: simp_thms)
qed

text \<open>
  C6, as amended. The three name-taking tools (get profile, get visual parameters,
  enhance prompt) compute the same key: the name in lower case with every space and
  hyphen replaced by an underscore. "Old Fashioned", "old-fashioned" and "OLD\_FASHIONED"
  all give the key old\_fashioned, under which the static table's profile is cached. Two
  names with the same key that resolve to a cached profile get equal results from each
  of the three tools. Search by flavor and spirit lookup lowercase their argument and do
  nothing else to it: two flavors equal after lowercasing get equal search results, and
  two spirit names equal after lowercasing get equal results when the spirit is in the
  table.
\<close>

theorem lookup_key_normalization:
  "lookup_key n1 = map (\<lambda>c. if c = 32 \<or> c = 45 then 95 else c) (lower n1)
   \<and> lookup_key (str ''Old Fashioned'') = str ''old_fashioned''
   \<and> lookup_key (str ''old-fashioned'') = str ''old_fashioned''
   \<and> lookup_key (str ''OLD_FASHIONED'') = str ''old_fashioned''
   \<and> map_option name
        (map_of (profile_cache (ensure_cached COCKTAIL_TAXONOMY initial_state))
           (str ''old_fashioned'')) = Some (str ''Old Fashioned'')
   \<and> (lookup_key n1 = lookup_key n2
        \<and> map_of (profile_cache (ensure_cached tax st)) (lookup_key n1) \<noteq> None \<longrightarrow>
          get_cocktail_profile tax n1 st = get_cocktail_profile tax n2 st
          \<and> get_visual_parameters tax n1 st = get_visual_parameters tax n2 st
          \<and> enhance_prompt_with_cocktail tax base_prompt n1 st
              = enhance_prompt_with_cocktail tax base_prompt n2 st)
   \<and> (lower f1 = lower f2 \<longrightarrow>
          search_cocktails_by_flavor tax f1 st = search_cocktails_by_flavor tax f2 st)
   \<and> (lower s1 = lower s2 \<and> lower s1 \<in> set (map fst warmth_map) \<longrightarrow>
          get_spirit_warmth s1 = get_spirit_warmth s2)"
proof -
  have shape: "lookup_key n1 = map (\<lambda>c. if c = 32 \<or> c = 45 then 95 else c) (lower n1)"
    by (simp add: lookup_key_def replace_def)
  have names: "lookup_key (str ''Old Fashioned'') = str ''old_fashioned''"
    "lookup_key (str ''old-fashioned'') = str ''old_fashioned''"
    "lookup_key (str ''OLD_FASHIONED'') = str ''old_fashioned''"
    by (simp_all add: lookup_key_def str_eval)
  have cached: "map_option name
        (map_of (profile_cache (ensure_cached COCKTAIL_TAXONOMY initial_state))
           (str ''old_fashioned'')) = Some (str ''Old Fashioned'')"
    by (simp add: old_fashioned_cached)
  have tools: "get_cocktail_profile tax n1 st = get_cocktail_profile tax n2 st
          \<and> get_visual_parameters tax n1 st = get_visual_parameters tax n2 st
          \<and> enhance_prompt_with_cocktail tax base_prompt n1 st
              = enhance_prompt_with_cocktail tax base_prompt n2 st"
    if "lookup_key n1 = lookup_key n2"
      and "map_of (profile_cache (ensure_cached tax st)) (lookup_key n1) \<noteq> None"
  proof -
    from that obtain p
      where "map_of (profile_cache (ensure_cached tax st)) (lookup_key n1) = Some p"
        and "map_of (profile_cache (ensure_cached tax st)) (lookup_key n2) = Some p"
      by auto
    then show ?thesis
      by (simp add: get_cocktail_profile_def get_visual_parameters_def
          enhance_prompt_with_cocktail_def Let_def)
  qed
  have search: "search_cocktails_by_flavor tax f1 st = search_cocktails_by_flavor tax f2 st"
    if "lower f1 = lower f2"
    using that by (simp add: search_cocktails_by_flavor_def)
  have warmth: "get_spirit_warmth s1 = get_spirit_warmth s2"
    if "lower s1 = lower s2" and "lower s1 \<in> set (map fst warmth_map)"
  proof -
    from that(2) obtain w where "map_of warmth_map (lower s1) = Some w"
      by (cases "map_of warmth_map (lower s1)") (auto simp: map_of_eq_None_iff)
    with that(1) show ?thesis
      by (simp add: get_spirit_warmth_def)
  qed
  from shape names cached tools search warmth show ?thesis by blast
qed

theorem lookup_key_normalization_witness:
  "lookup_key (str ''Old Fashioned'') = lookup_key (str ''old-fashioned'')
   \<and> map_of (profile_cache (ensure_cached COCKTAIL_TAXONOMY initial_state))
        (lookup_key (str ''Old Fashioned'')) \<noteq> None
   \<and> get_cocktail_profile COCKTAIL_TAXONOMY (str ''Old Fashioned'') initial_state
       = get_cocktail_profile COCKTAIL_TAXONOMY (str ''old-fashioned'') initial_state
   \<and> get_visual_parameters COCKTAIL_TAXONOMY (str ''Old Fashioned'') initial_state
       = get_visual_parameters COCKTAIL_TAXONOMY (str ''old-fashioned'') initial_state
   \<and> enhance_prompt_with_cocktail COCKTAIL_TAXONOMY (str ''a bar at night'')
         (str ''Old Fashioned'') initial_state
       = enhance_prompt_with_cocktail COCKTAIL_TAXONOMY (str ''a bar at night'')
         (str ''old-fashioned'') initial_state
   \<and> lower (str ''Bitter'') = lower (str ''BITTER'')
   \<and> search_cocktails_by_flavor COCKTAIL_TAXONOMY (str ''Bitter'') initial_state
       = search_cocktails_by_flavor COCKTAIL_TAXONOMY (str ''BITTER'') initial_state
   \<and> lower (str ''Rum'') = lower (str ''RUM'')
   \<and> lower (str ''Rum'') \<in> set (map fst warmth_map)
   \<and> get_spirit_warmth (str ''Rum'') = get_spirit_warmth (str ''RUM'')"
proof -
  have k: "lookup_key (str ''Old Fashioned'') = lookup_key (str ''old-fashioned'')"
    by (simp add: lookup_key_def str_eval)
  have k': "lookup_key (str ''Old Fashioned'') = str ''old_fashioned''"
    by (simp add: lookup_key_def str_eval)
  have c: "map_of (profile_cache (ensure_cached COCKTAIL_TAXONOMY initial_state))
        (lookup_key (str ''Old Fashioned'')) \<noteq> None"
    by (simp add: k' old_fashioned_cached)
  have f: "lower (str ''Bitter'') = lower (str ''BITTER'')"
    by (simp add: str_eval)
  have s: "lower (str ''Rum'') = lower (str ''RUM'')"
    by (simp add: str_eval)
  have m: "lower (str ''Rum'') \<in> set (map fst warmth_map)"
    by (simp add: warmth_map_def str_eval)
  note inst = lookup_key_normalization
    [of "str ''Old Fashioned''" "str ''old-fashioned''" COCKTAIL_TAXONOMY initial_state
      "str ''a bar at night''" "str ''Bitter''" "str ''BITTER''" "str ''Rum''" "str ''RUM''"]
  from inst k c f s m show ?thesis by blast
qed

end
